theory Spec2Isabelle
  imports Complex_Main
begin

section \<open>Python values\<close>

text \<open>
  The adapter (\<^verbatim>\<open>server.py\<close>) passes loosely typed Python values around: query
  parameters, JSON bodies and the \<^verbatim>\<open>Dict[str, Any]\<close> results of the tools. A
  \<^verbatim>\<open>dict\<close> keeps its insertion order, so it is an association list. Floats are
  only carried from the caller to the request, never computed with, so a real number stands
  for one.
\<close>

datatype pyval =
    PNone
  | PBool bool
  | PInt int
  | PFloat real
  | PStr string
  | PList "pyval list"
  | PDict "(string \<times> pyval) list"

type_synonym pydict = "(string \<times> pyval) list"

text \<open>\<^verbatim>\<open>d[k] = v\<close>: an existing key keeps its position, a new key goes last.\<close>

fun dict_set :: "pydict \<Rightarrow> string \<Rightarrow> pyval \<Rightarrow> pydict" where
  "dict_set [] k v = [(k, v)]"
| "dict_set ((k', v') # kvs) k v =
     (if k' = k then (k, v) # kvs else (k', v') # dict_set kvs k v)"

text \<open>\<^verbatim>\<open>d.get(k)\<close>, and the keys of a dict in order.\<close>

definition dict_get :: "pydict \<Rightarrow> string \<Rightarrow> pyval option" where
  "dict_get kvs k = map_of kvs k"

definition dict_keys :: "pydict \<Rightarrow> string list" where
  "dict_keys kvs = map fst kvs"

subsection \<open>\<^verbatim>\<open>str(int)\<close>, as the f-strings use it\<close>

definition digit_char :: "nat \<Rightarrow> char" where
  "digit_char d = ''0123456789'' ! d"

fun str_nat :: "nat \<Rightarrow> string" where
  "str_nat n =
     (if n < 10 then [digit_char n] else str_nat (n div 10) @ [digit_char (n mod 10)])"

declare str_nat.simps [simp del]

definition str_int :: "int \<Rightarrow> string" where
  "str_int i = (if i < 0 then CHR ''-'' # str_nat (nat (- i)) else str_nat (nat i))"

section \<open>The HTTP client, as the adapter sees it\<close>

text \<open>
  A request is what the source hands to \<^verbatim>\<open>client.get\<close> or \<^verbatim>\<open>client.post\<close>:
  the URL and the keyword arguments \<^verbatim>\<open>params\<close>, \<^verbatim>\<open>json\<close> and
  \<^verbatim>\<open>timeout\<close>, each \<open>None\<close> when the call does not pass it.
\<close>

datatype http_method = GET | POST

record request =
  meth :: http_method
  url :: string
  params :: "pydict option"
  json_body :: "pyval option"
  timeout :: "real option"

text \<open>
  A response carries its status code, its raw body (\<^verbatim>\<open>response.content\<close>) and
  what \<^verbatim>\<open>response.json()\<close> gives: the parsed value, or \<open>Inl m\<close> when parsing raises
  an exception whose \<^verbatim>\<open>str\<close> is \<open>m\<close>.
\<close>

type_synonym bytes = "char list"

record response =
  status_code :: int
  content :: bytes
  json :: "string + pyval"

text \<open>
  The call either returns a response or raises an exception (timeout, connection refused,
  any other failure of the client; each one an \<^verbatim>\<open>Exception\<close>, as the errors of
  httpx are), of which the adapter only ever reads the \<^verbatim>\<open>str\<close>.
\<close>

datatype outcome = Responded response | Raised string

datatype exn =
    HTTPStatusError response
  | RequestError string
  | JSONDecodeError string
  | TypeError
  | KeyError string

text \<open>
  The robots are outside the program: a downstream answers a request from its current
  state \<open>'w\<close> and moves to a new one. The adapter's state is that world together with the
  requests it has sent so far, oldest first.
\<close>

type_synonym 'w downstream = "request \<Rightarrow> 'w \<Rightarrow> outcome \<times> 'w"

record 'w net =
  world :: 'w
  sent :: "request list"

definition client_send :: "'w downstream \<Rightarrow> request \<Rightarrow> 'w net \<Rightarrow> outcome \<times> 'w net" where
  "client_send d rq s =
     (case d rq (world s) of (out, w') \<Rightarrow> (out, \<lparr>world = w', sent = sent s @ [rq]\<rparr>))"

text \<open>
  \<^verbatim>\<open>client.get(url, params=..., timeout=...)\<close> and
  \<^verbatim>\<open>client.post(url, json=...)\<close>: the request each one makes, and the call.
\<close>

definition get_request :: "string \<Rightarrow> pydict option \<Rightarrow> real option \<Rightarrow> request" where
  "get_request u ps tmo =
     \<lparr>meth = GET, url = u, params = ps, json_body = None, timeout = tmo\<rparr>"

definition post_request :: "string \<Rightarrow> pyval \<Rightarrow> request" where
  "post_request u body =
     \<lparr>meth = POST, url = u, params = None, json_body = Some body, timeout = None\<rparr>"

definition client_get ::
  "'w downstream \<Rightarrow> string \<Rightarrow> pydict option \<Rightarrow> real option \<Rightarrow> 'w net \<Rightarrow> outcome \<times> 'w net" where
  "client_get d u ps tmo s = client_send d (get_request u ps tmo) s"

definition client_post ::
  "'w downstream \<Rightarrow> string \<Rightarrow> pyval \<Rightarrow> 'w net \<Rightarrow> outcome \<times> 'w net" where
  "client_post d u body s = client_send d (post_request u body) s"

text \<open>
  \<^verbatim>\<open>response.raise_for_status()\<close> of httpx raises unless the status is in 200..299;
  \<^verbatim>\<open>response.json()\<close> raises when the body does not parse.
\<close>

definition is_success :: "response \<Rightarrow> bool" where
  "is_success r = (200 \<le> status_code r \<and> status_code r \<le> 299)"

definition raise_for_status :: "response \<Rightarrow> exn + unit" where
  "raise_for_status r = (if is_success r then Inr () else Inl (HTTPStatusError r))"

definition response_json :: "response \<Rightarrow> exn + pyval" where
  "response_json r = (case json r of Inl m \<Rightarrow> Inl (JSONDecodeError m) | Inr v \<Rightarrow> Inr v)"

text \<open>
  The last three lines of every JSON relay, given what the awaited call did:
  \<^verbatim>\<open>response = await client.get(...); response.raise_for_status(); return response.json()\<close>.
  An exception of the call leaves the function as it is.
\<close>

definition checked_json :: "outcome \<Rightarrow> exn + pyval" where
  "checked_json out =
     (case out of
        Raised m \<Rightarrow> Inl (RequestError m)
      | Responded r \<Rightarrow>
          (case raise_for_status r of Inl e \<Rightarrow> Inl e | Inr _ \<Rightarrow> response_json r))"

section \<open>The command relay\<close>

definition get_robot_api_url :: "int \<Rightarrow> string" where
  "get_robot_api_url port = ''http://localhost:'' @ str_int port"

text \<open>
  \<^verbatim>\<open>params = {"speed": speed}; if duration is not None: params["duration"] = duration\<close>,
  shared by the four movement tools.
\<close>

definition speed_params :: "real \<Rightarrow> real option \<Rightarrow> pydict" where
  "speed_params speed duration =
     (let params = [(''speed'', PFloat speed)]
      in case duration of
           None \<Rightarrow> params
         | Some x \<Rightarrow> dict_set params ''duration'' (PFloat x))"

definition drive_forward ::
  "'w downstream \<Rightarrow> int \<Rightarrow> real \<Rightarrow> real option \<Rightarrow> 'w net \<Rightarrow> (exn + pyval) \<times> 'w net" where
  "drive_forward d port speed duration s =
     (let robot_api_url = get_robot_api_url port;
          params = speed_params speed duration
      in case client_get d (robot_api_url @ ''/forward'') (Some params) None s of
           (out, s') \<Rightarrow> (checked_json out, s'))"

definition drive_backward ::
  "'w downstream \<Rightarrow> int \<Rightarrow> real \<Rightarrow> real option \<Rightarrow> 'w net \<Rightarrow> (exn + pyval) \<times> 'w net" where
  "drive_backward d port speed duration s =
     (let robot_api_url = get_robot_api_url port;
          params = speed_params speed duration
      in case client_get d (robot_api_url @ ''/backward'') (Some params) None s of
           (out, s') \<Rightarrow> (checked_json out, s'))"

definition turn_left ::
  "'w downstream \<Rightarrow> int \<Rightarrow> real \<Rightarrow> real option \<Rightarrow> 'w net \<Rightarrow> (exn + pyval) \<times> 'w net" where
  "turn_left d port speed duration s =
     (let robot_api_url = get_robot_api_url port;
          params = speed_params speed duration
      in case client_get d (robot_api_url @ ''/left'') (Some params) None s of
           (out, s') \<Rightarrow> (checked_json out, s'))"

definition turn_right ::
  "'w downstream \<Rightarrow> int \<Rightarrow> real \<Rightarrow> real option \<Rightarrow> 'w net \<Rightarrow> (exn + pyval) \<times> 'w net" where
  "turn_right d port speed duration s =
     (let robot_api_url = get_robot_api_url port;
          params = speed_params speed duration
      in case client_get d (robot_api_url @ ''/right'') (Some params) None s of
           (out, s') \<Rightarrow> (checked_json out, s'))"

definition stop :: "'w downstream \<Rightarrow> int \<Rightarrow> 'w net \<Rightarrow> (exn + pyval) \<times> 'w net" where
  "stop d port s =
     (let robot_api_url = get_robot_api_url port
      in case client_get d (robot_api_url @ ''/stop'') None None s of
           (out, s') \<Rightarrow> (checked_json out, s'))"

definition beep ::
  "'w downstream \<Rightarrow> int \<Rightarrow> real \<Rightarrow> real \<Rightarrow> real \<Rightarrow> 'w net \<Rightarrow> (exn + pyval) \<times> 'w net" where
  "beep d port frequency duration volume s =
     (let robot_api_url = get_robot_api_url port;
          params = [(''frequency'', PFloat frequency), (''duration'', PFloat duration),
                    (''volume'', PFloat volume)]
      in case client_get d (robot_api_url @ ''/beep'') (Some params) None s of
           (out, s') \<Rightarrow> (checked_json out, s'))"

definition drive ::
  "'w downstream \<Rightarrow> int \<Rightarrow> real \<Rightarrow> real \<Rightarrow> real option \<Rightarrow> 'w net \<Rightarrow> (exn + pyval) \<times> 'w net" where
  "drive d port linear_velocity angular_velocity duration s =
     (let robot_api_url = get_robot_api_url port;
          json_data = [(''linear_velocity'', PFloat linear_velocity),
                       (''angular_velocity'', PFloat angular_velocity)];
          json_data = (case duration of
                         None \<Rightarrow> json_data
                       | Some x \<Rightarrow> dict_set json_data ''duration'' (PFloat x))
      in case client_post d (robot_api_url @ ''/drive'') (PDict json_data) s of
           (out, s') \<Rightarrow> (checked_json out, s'))"

definition robot_status :: "'w downstream \<Rightarrow> int \<Rightarrow> 'w net \<Rightarrow> (exn + pyval) \<times> 'w net" where
  "robot_status d port s =
     (let robot_api_url = get_robot_api_url port
      in case client_get d (robot_api_url @ ''/'') None None s of
           (out, s') \<Rightarrow> (checked_json out, s'))"

text \<open>The \<^verbatim>\<open>Image(data=..., format=...)\<close> that the image tool returns.\<close>

record image =
  img_data :: bytes
  img_format :: string

definition get_camera_image ::
  "'w downstream \<Rightarrow> int \<Rightarrow> string \<Rightarrow> int \<Rightarrow> 'w net \<Rightarrow> (exn + image) \<times> 'w net" where
  "get_camera_image d port fmt quality s =
     (let robot_api_url = get_robot_api_url port;
          params = [(''format'', PStr fmt), (''quality'', PInt quality)]
      in case client_get d (robot_api_url @ ''/image'') (Some params) None s of
           (Raised m, s') \<Rightarrow> (Inl (RequestError m), s')
         | (Responded r, s') \<Rightarrow>
             (case raise_for_status r of
                Inl e \<Rightarrow> (Inl e, s')
              | Inr _ \<Rightarrow>
                  (let image_data = content r
                   in (Inr \<lparr>img_data = image_data, img_format = fmt\<rparr>, s'))))"

text \<open>
  The tools are registered by name with \<^verbatim>\<open>@mcp.tool()\<close>; a call of one of the eight
  JSON relays is a value of \<open>relay_call\<close>, and \<open>run_relay\<close> runs the function it names.
\<close>

datatype relay_call =
    DriveForward int real "real option"
  | DriveBackward int real "real option"
  | TurnLeft int real "real option"
  | TurnRight int real "real option"
  | Stop int
  | Beep int real real real
  | Drive int real real "real option"
  | RobotStatus int

fun run_relay :: "'w downstream \<Rightarrow> relay_call \<Rightarrow> 'w net \<Rightarrow> (exn + pyval) \<times> 'w net" where
  "run_relay d (DriveForward port speed duration) s = drive_forward d port speed duration s"
| "run_relay d (DriveBackward port speed duration) s = drive_backward d port speed duration s"
| "run_relay d (TurnLeft port speed duration) s = turn_left d port speed duration s"
| "run_relay d (TurnRight port speed duration) s = turn_right d port speed duration s"
| "run_relay d (Stop port) s = stop d port s"
| "run_relay d (Beep port frequency duration volume) s = beep d port frequency duration volume s"
| "run_relay d (Drive port lv av duration) s = drive d port lv av duration s"
| "run_relay d (RobotStatus port) s = robot_status d port s"

subsection \<open>Default arguments\<close>

text \<open>
  A parameter the caller omits takes the default of the \<^verbatim>\<open>def\<close> line. An omitted
  \<^verbatim>\<open>duration\<close> of a movement tool is \<^verbatim>\<open>None\<close>, which is \<open>None\<close> here too.
\<close>

definition arg_or :: "'a \<Rightarrow> 'a option \<Rightarrow> 'a" where
  "arg_or dflt a = (case a of None \<Rightarrow> dflt | Some v \<Rightarrow> v)"

definition call_drive_forward ::
  "'w downstream \<Rightarrow> int option \<Rightarrow> real option \<Rightarrow> real option \<Rightarrow> 'w net
    \<Rightarrow> (exn + pyval) \<times> 'w net" where
  "call_drive_forward d port speed duration s =
     drive_forward d (arg_or 8000 port) (arg_or 0.2 speed) duration s"

definition call_drive_backward ::
  "'w downstream \<Rightarrow> int option \<Rightarrow> real option \<Rightarrow> real option \<Rightarrow> 'w net
    \<Rightarrow> (exn + pyval) \<times> 'w net" where
  "call_drive_backward d port speed duration s =
     drive_backward d (arg_or 8000 port) (arg_or 0.2 speed) duration s"

definition call_turn_left ::
  "'w downstream \<Rightarrow> int option \<Rightarrow> real option \<Rightarrow> real option \<Rightarrow> 'w net
    \<Rightarrow> (exn + pyval) \<times> 'w net" where
  "call_turn_left d port speed duration s =
     turn_left d (arg_or 8000 port) (arg_or 1.2 speed) duration s"

definition call_turn_right ::
  "'w downstream \<Rightarrow> int option \<Rightarrow> real option \<Rightarrow> real option \<Rightarrow> 'w net
    \<Rightarrow> (exn + pyval) \<times> 'w net" where
  "call_turn_right d port speed duration s =
     turn_right d (arg_or 8000 port) (arg_or 1.2 speed) duration s"

definition call_stop :: "'w downstream \<Rightarrow> int option \<Rightarrow> 'w net \<Rightarrow> (exn + pyval) \<times> 'w net" where
  "call_stop d port s = stop d (arg_or 8000 port) s"

definition call_beep ::
  "'w downstream \<Rightarrow> int option \<Rightarrow> real option \<Rightarrow> real option \<Rightarrow> real option \<Rightarrow> 'w net
    \<Rightarrow> (exn + pyval) \<times> 'w net" where
  "call_beep d port frequency duration volume s =
     beep d (arg_or 8000 port) (arg_or 440.0 frequency) (arg_or 1.0 duration)
       (arg_or 0.5 volume) s"

definition call_drive ::
  "'w downstream \<Rightarrow> int option \<Rightarrow> real option \<Rightarrow> real option \<Rightarrow> real option \<Rightarrow> 'w net
    \<Rightarrow> (exn + pyval) \<times> 'w net" where
  "call_drive d port linear_velocity angular_velocity duration s =
     drive d (arg_or 8000 port) (arg_or 0.0 linear_velocity) (arg_or 0.0 angular_velocity)
       duration s"

definition call_robot_status ::
  "'w downstream \<Rightarrow> int option \<Rightarrow> 'w net \<Rightarrow> (exn + pyval) \<times> 'w net" where
  "call_robot_status d port s = robot_status d (arg_or 8000 port) s"

definition call_get_camera_image ::
  "'w downstream \<Rightarrow> int option \<Rightarrow> string option \<Rightarrow> int option \<Rightarrow> 'w net
    \<Rightarrow> (exn + image) \<times> 'w net" where
  "call_get_camera_image d port fmt quality s =
     get_camera_image d (arg_or 8000 port) (arg_or ''png'' fmt) (arg_or 90 quality) s"

section \<open>The fleet listing\<close>

text \<open>
  The two dicts of the \<^verbatim>\<open>robots\<close> literal have the keys \<^verbatim>\<open>"port"\<close> and
  \<^verbatim>\<open>"name"\<close> and are only read at these keys: a record.
\<close>

record robot =
  r_port :: int
  r_name :: string

definition robots :: "robot list" where
  "robots = [\<lparr>r_port = 8000, r_name = ''Robot 1''\<rparr>,
             \<lparr>r_port = 8001, r_name = ''Robot 2''\<rparr>]"

text \<open>
  The body of the \<^verbatim>\<open>try\<close>: \<open>Inr\<close> the entry it builds, or \<open>Inl m\<close> when the call
  or \<^verbatim>\<open>response.json()\<close> raises an exception whose \<^verbatim>\<open>str\<close> is \<open>m\<close>.
\<close>

definition query_robot :: "'w downstream \<Rightarrow> robot \<Rightarrow> 'w net \<Rightarrow> (string + pyval) \<times> 'w net" where
  "query_robot d robot s =
     (let robot_api_url = get_robot_api_url (r_port robot)
      in case client_get d (robot_api_url @ ''/'') None (Some 1.0) s of
           (Raised m, s') \<Rightarrow> (Inl m, s')
         | (Responded r, s') \<Rightarrow>
             (if status_code r = 200
              then (case json r of
                      Inl m \<Rightarrow> (Inl m, s')
                    | Inr info \<Rightarrow>
                        (Inr (PDict [(''port'', PInt (r_port robot)),
                                     (''name'', PStr (r_name robot)),
                                     (''status'', PStr ''online''),
                                     (''info'', info)]), s'))
              else (Inr (PDict [(''port'', PInt (r_port robot)),
                                (''name'', PStr (r_name robot)),
                                (''status'', PStr (''error: '' @ str_int (status_code r)))]),
                    s')))"

text \<open>The \<^verbatim>\<open>try\<close> with its \<^verbatim>\<open>except Exception as e\<close>.\<close>

definition robot_entry :: "'w downstream \<Rightarrow> robot \<Rightarrow> 'w net \<Rightarrow> pyval \<times> 'w net" where
  "robot_entry d robot s =
     (case query_robot d robot s of
        (Inr robot_info, s') \<Rightarrow> (robot_info, s')
      | (Inl e, s') \<Rightarrow>
          (PDict [(''port'', PInt (r_port robot)),
                  (''name'', PStr (r_name robot)),
                  (''status'', PStr (''offline: '' @ e))], s'))"

text \<open>\<^verbatim>\<open>for robot in robots: ...; result.append(robot_info)\<close>.\<close>

fun list_robots_loop ::
  "'w downstream \<Rightarrow> robot list \<Rightarrow> pyval list \<Rightarrow> 'w net \<Rightarrow> pyval list \<times> 'w net" where
  "list_robots_loop d [] result s = (result, s)"
| "list_robots_loop d (robot # rest) result s =
     (case robot_entry d robot s of
        (robot_info, s') \<Rightarrow> list_robots_loop d rest (result @ [robot_info]) s')"

definition list_available_robots :: "'w downstream \<Rightarrow> 'w net \<Rightarrow> pyval list \<times> 'w net" where
  "list_available_robots d s = list_robots_loop d robots [] s"

section \<open>The robot info resource\<close>

fun starts_with :: "string \<Rightarrow> string \<Rightarrow> bool" where
  "starts_with [] t = True"
| "starts_with (c # cs) [] = False"
| "starts_with (c # cs) (c' # t) = (c = c' \<and> starts_with cs t)"

fun str_contains :: "string \<Rightarrow> string \<Rightarrow> bool" where
  "str_contains k [] = (k = [])"
| "str_contains k (c # t) = (starts_with k (c # t) \<or> str_contains k t)"

text \<open>
  \<^verbatim>\<open>k in data\<close> for a string \<open>k\<close>: a key of a dict, an element of a list, a substring
  of a string, and a \<^verbatim>\<open>TypeError\<close> on a number, a boolean or \<^verbatim>\<open>None\<close>.
\<close>

fun py_in :: "string \<Rightarrow> pyval \<Rightarrow> exn + bool" where
  "py_in k (PDict kvs) = Inr (k \<in> set (dict_keys kvs))"
| "py_in k (PList xs) = Inr (PStr k \<in> set xs)"
| "py_in k (PStr t) = Inr (str_contains k t)"
| "py_in k PNone = Inl TypeError"
| "py_in k (PBool b) = Inl TypeError"
| "py_in k (PInt i) = Inl TypeError"
| "py_in k (PFloat x) = Inl TypeError"

text \<open>\<^verbatim>\<open>data[k]\<close> for a string \<open>k\<close>: only a dict can be indexed by a string.\<close>

fun py_getitem :: "pyval \<Rightarrow> string \<Rightarrow> exn + pyval" where
  "py_getitem (PDict kvs) k =
     (case dict_get kvs k of None \<Rightarrow> Inl (KeyError k) | Some v \<Rightarrow> Inr v)"
| "py_getitem (PList xs) k = Inl TypeError"
| "py_getitem (PStr t) k = Inl TypeError"
| "py_getitem PNone k = Inl TypeError"
| "py_getitem (PBool b) k = Inl TypeError"
| "py_getitem (PInt i) k = Inl TypeError"
| "py_getitem (PFloat x) k = Inl TypeError"

text \<open>
  The body of the \<^verbatim>\<open>try\<close> of \<^verbatim>\<open>get_robot_info\<close>: the value of
  \<^verbatim>\<open>robot_name\<close> when the block ends, or the exception that leaves it.
\<close>

definition lookup_robot_name ::
  "'w downstream \<Rightarrow> int \<Rightarrow> pyval \<Rightarrow> 'w net \<Rightarrow> (exn + pyval) \<times> 'w net" where
  "lookup_robot_name d port robot_name s =
     (let robot_api_url = get_robot_api_url port
      in case client_get d (robot_api_url @ ''/'') None None s of
           (Raised m, s') \<Rightarrow> (Inl (RequestError m), s')
         | (Responded r, s') \<Rightarrow>
             (if status_code r = 200
              then (case response_json r of
                      Inl e \<Rightarrow> (Inl e, s')
                    | Inr data \<Rightarrow>
                        (case py_in ''name'' data of
                           Inl e \<Rightarrow> (Inl e, s')
                         | Inr True \<Rightarrow> (py_getitem data ''name'', s')
                         | Inr False \<Rightarrow> (Inr robot_name, s')))
              else (Inr robot_name, s')))"

definition capabilities :: "pyval" where
  "capabilities = PList [
     PStr ''Movement: forward, backward, left, right'',
     PStr ''Sound: beep at different frequencies'',
     PStr ''Control: precise velocity control'',
     PStr ''Vision: camera image capture'']"

definition api_endpoints :: "pyval" where
  "api_endpoints = PList [
     PStr ''/forward - Move forward'',
     PStr ''/backward - Move backward'',
     PStr ''/left - Turn left'',
     PStr ''/right - Turn right'',
     PStr ''/stop - Stop movement'',
     PStr ''/beep - Play sound'',
     PStr ''/drive - Precise movement control'',
     PStr ''/image - Get camera image'',
     PStr ''/image/base64 - Get base64 encoded camera image'']"

text \<open>The bare \<^verbatim>\<open>except: pass\<close> keeps the default name on every exception.\<close>

definition get_robot_info :: "'w downstream \<Rightarrow> int \<Rightarrow> 'w net \<Rightarrow> pyval \<times> 'w net" where
  "get_robot_info d port s =
     (let robot_name = PStr (''Robot (Port '' @ str_int port @ '')'')
      in case lookup_robot_name d port robot_name s of
           (res, s') \<Rightarrow>
             (let robot_name = (case res of Inl e \<Rightarrow> robot_name | Inr n \<Rightarrow> n)
              in (PDict [(''name'', robot_name),
                         (''port'', PInt port),
                         (''capabilities'', capabilities),
                         (''api_endpoints'', api_endpoints)], s')))"

section \<open>Reading requests and reports\<close>

text \<open>
  What the properties below observe. A field of a report entry; the identity (port and
  name) an entry carries and the one a configured robot has; the status request the
  listing sends for a robot; the entry the listing builds from what that request did.
\<close>

definition entry_field :: "pyval \<Rightarrow> string \<Rightarrow> pyval option" where
  "entry_field e k = (case e of PDict kvs \<Rightarrow> dict_get kvs k | _ \<Rightarrow> None)"

definition entry_ident :: "pyval \<Rightarrow> pyval option \<times> pyval option" where
  "entry_ident e = (entry_field e ''port'', entry_field e ''name'')"

definition robot_ident :: "robot \<Rightarrow> pyval option \<times> pyval option" where
  "robot_ident r = (Some (PInt (r_port r)), Some (PStr (r_name r)))"

text \<open>\<^verbatim>\<open>client.get(f"{robot_api_url}/", timeout=1.0)\<close> for one robot.\<close>

definition status_request :: "robot \<Rightarrow> request" where
  "status_request robot = get_request (get_robot_api_url (r_port robot) @ ''/'') None (Some 1.0)"

definition entry_of_outcome :: "robot \<Rightarrow> outcome \<Rightarrow> pyval" where
  "entry_of_outcome robot out =
     (case out of
        Raised m \<Rightarrow>
          PDict [(''port'', PInt (r_port robot)), (''name'', PStr (r_name robot)),
                 (''status'', PStr (''offline: '' @ m))]
      | Responded r \<Rightarrow>
          (if status_code r = 200
           then (case json r of
                   Inr info \<Rightarrow>
                     PDict [(''port'', PInt (r_port robot)), (''name'', PStr (r_name robot)),
                            (''status'', PStr ''online''), (''info'', info)]
                 | Inl m \<Rightarrow>
                     PDict [(''port'', PInt (r_port robot)), (''name'', PStr (r_name robot)),
                            (''status'', PStr (''offline: '' @ m))])
           else PDict [(''port'', PInt (r_port robot)), (''name'', PStr (r_name robot)),
                       (''status'', PStr (''error: '' @ str_int (status_code r)))]))"

text \<open>
  What the downstream does with the status requests of a list of robots, asked in order
  from the world \<open>w\<close>: the outcomes, and the world afterwards.
\<close>

fun fleet_outcomes :: "'w downstream \<Rightarrow> robot list \<Rightarrow> 'w \<Rightarrow> outcome list" where
  "fleet_outcomes d [] w = []"
| "fleet_outcomes d (robot # rest) w =
     (case d (status_request robot) w of (out, w') \<Rightarrow> out # fleet_outcomes d rest w')"

fun fleet_world :: "'w downstream \<Rightarrow> robot list \<Rightarrow> 'w \<Rightarrow> 'w" where
  "fleet_world d [] w = w"
| "fleet_world d (robot # rest) w = fleet_world d rest (snd (d (status_request robot) w))"

text \<open>
  The one request a relay call makes, written out per tool; \<open>run_relay_eq\<close> below
  checks it against the functions. The fields that travel with a request are its query
  parameters, or the keys of its JSON object; \<open>duration_sent_as\<close> says how an optional
  duration shows there: no key when it is \<open>None\<close>, the key with the value otherwise.
\<close>

fun relay_request :: "relay_call \<Rightarrow> request" where
  "relay_request (DriveForward port speed duration) =
     get_request (get_robot_api_url port @ ''/forward'') (Some (speed_params speed duration)) None"
| "relay_request (DriveBackward port speed duration) =
     get_request (get_robot_api_url port @ ''/backward'') (Some (speed_params speed duration)) None"
| "relay_request (TurnLeft port speed duration) =
     get_request (get_robot_api_url port @ ''/left'') (Some (speed_params speed duration)) None"
| "relay_request (TurnRight port speed duration) =
     get_request (get_robot_api_url port @ ''/right'') (Some (speed_params speed duration)) None"
| "relay_request (Stop port) = get_request (get_robot_api_url port @ ''/stop'') None None"
| "relay_request (Beep port frequency duration volume) =
     get_request (get_robot_api_url port @ ''/beep'')
       (Some [(''frequency'', PFloat frequency), (''duration'', PFloat duration),
              (''volume'', PFloat volume)]) None"
| "relay_request (Drive port lv av duration) =
     post_request (get_robot_api_url port @ ''/drive'')
       (PDict (case duration of
                 None \<Rightarrow> [(''linear_velocity'', PFloat lv), (''angular_velocity'', PFloat av)]
               | Some x \<Rightarrow> [(''linear_velocity'', PFloat lv), (''angular_velocity'', PFloat av),
                            (''duration'', PFloat x)]))"
| "relay_request (RobotStatus port) = get_request (get_robot_api_url port @ ''/'') None None"

definition sent_fields :: "request \<Rightarrow> pydict" where
  "sent_fields rq =
     (case params rq of
        Some ps \<Rightarrow> ps
      | None \<Rightarrow> (case json_body rq of Some (PDict kvs) \<Rightarrow> kvs | _ \<Rightarrow> []))"

definition duration_sent_as :: "real option \<Rightarrow> request \<Rightarrow> bool" where
  "duration_sent_as duration rq =
     (case duration of
        None \<Rightarrow> ''duration'' \<notin> set (dict_keys (sent_fields rq))
      | Some x \<Rightarrow> dict_get (sent_fields rq) ''duration'' = Some (PFloat x))"

text \<open>The request of the image tool, and the one of the info resource.\<close>

definition image_request :: "int \<Rightarrow> string \<Rightarrow> int \<Rightarrow> request" where
  "image_request port fmt quality =
     get_request (get_robot_api_url port @ ''/image'')
       (Some [(''format'', PStr fmt), (''quality'', PInt quality)]) None"

definition info_request :: "int \<Rightarrow> request" where
  "info_request port = get_request (get_robot_api_url port @ ''/'') None None"

text \<open>
  The name the info resource starts from, and the name it ends with given what its request
  did: the \<^verbatim>\<open>"name"\<close> of a 200 response whose body is a JSON object with that key,
  the starting name otherwise.
\<close>

definition fallback_name :: "int \<Rightarrow> pyval" where
  "fallback_name port = PStr (''Robot (Port '' @ str_int port @ '')'')"

definition resolved_name :: "int \<Rightarrow> outcome \<Rightarrow> pyval" where
  "resolved_name port out =
     (case out of
        Raised m \<Rightarrow> fallback_name port
      | Responded r \<Rightarrow>
          (if status_code r = 200
           then (case json r of
                   Inl m \<Rightarrow> fallback_name port
                 | Inr data \<Rightarrow>
                     (case data of
                        PDict kvs \<Rightarrow>
                          (case dict_get kvs ''name'' of
                             None \<Rightarrow> fallback_name port
                           | Some v \<Rightarrow> v)
                      | _ \<Rightarrow> fallback_name port))
           else fallback_name port))"

text \<open>
  The failures of the status query that the specification lists: an exception of the call,
  a status outside the success range, a body that does not parse or has no name field.
\<close>

definition has_name_field :: "pyval \<Rightarrow> bool" where
  "has_name_field data =
     (case data of PDict kvs \<Rightarrow> dict_get kvs ''name'' \<noteq> None | _ \<Rightarrow> False)"

definition status_query_failed :: "outcome \<Rightarrow> bool" where
  "status_query_failed out =
     (case out of
        Raised m \<Rightarrow> True
      | Responded r \<Rightarrow>
          \<not> is_success r \<or>
          (case json r of Inl m \<Rightarrow> True | Inr data \<Rightarrow> \<not> has_name_field data))"

text \<open>A decimal string read back, to tell apart the URLs of two ports.\<close>

definition digit_val :: "char \<Rightarrow> nat" where
  "digit_val c = length (takeWhile (\<lambda>x. x \<noteq> c) ''0123456789'')"

definition nat_of_str :: "string \<Rightarrow> nat" where
  "nat_of_str cs = foldl (\<lambda>a c. 10 * a + digit_val c) 0 cs"

section \<open>Sample downstreams\<close>

text \<open>
  Robots to run the adapter against: one that answers every request with the same
  response, one that cannot be reached, and a fleet where only port 8000 is up.
\<close>

definition idle :: "unit net" where
  "idle = \<lparr>world = (), sent = []\<rparr>"

definition respond_with :: "response \<Rightarrow> unit downstream" where
  "respond_with r rq w = (Responded r, w)"

definition unreachable :: "string \<Rightarrow> unit downstream" where
  "unreachable m rq w = (Raised m, w)"

definition status_body :: "response" where
  "status_body =
     \<lparr>status_code = 200,
      content = ''{'' @ [CHR 0x22] @ ''name'' @ [CHR 0x22] @ '': '' @ [CHR 0x22] @ ''Bracket''
                @ [CHR 0x22] @ ''}'',
      json = Inr (PDict [(''name'', PStr ''Bracket'')])\<rparr>"

definition only_8000_up :: "unit downstream" where
  "only_8000_up rq w =
     (if url rq = ''http://localhost:8000/'' then (Responded status_body, w)
      else (Raised ''All connection attempts failed'', w))"

text \<open>A robot that answers 201 Created with an empty JSON object, and the first robot of the fleet.\<close>

definition created_response :: "response" where
  "created_response = \<lparr>status_code = 201, content = ''{}'', json = Inr (PDict [])\<rparr>"

definition robot1 :: "robot" where
  "robot1 = \<lparr>r_port = 8000, r_name = ''Robot 1''\<rparr>"

text \<open>A robot that fails with 500, and one whose 200 answer is not JSON.\<close>

definition server_error :: "response" where
  "server_error = \<lparr>status_code = 500, content = ''Internal Server Error'',
                    json = Inl ''Expecting value: line 1 column 1 (char 0)''\<rparr>"

definition not_json :: "response" where
  "not_json = \<lparr>status_code = 200, content = ''<html></html>'',
                json = Inl ''Expecting value: line 1 column 1 (char 0)''\<rparr>"

text \<open>A robot whose status is an empty object, and one that serves an image.\<close>

definition empty_status :: "response" where
  "empty_status = \<lparr>status_code = 200, content = ''{}'', json = Inr (PDict [])\<rparr>"

definition image_response :: "response" where
  "image_response =
     \<lparr>status_code = 200, content = [CHR 0x89] @ ''PNG'',
      json = Inl ''Expecting value: line 1 column 1 (char 0)''\<rparr>"

section \<open>Properties\<close>

subsection \<open>Evaluating the client calls\<close>

lemma client_get_eq:
  "client_get d u ps tmo s =
     (fst (d (get_request u ps tmo) (world s)),
      \<lparr>world = snd (d (get_request u ps tmo) (world s)),
       sent = sent s @ [get_request u ps tmo]\<rparr>)"
  by (simp add: client_get_def client_send_def split: prod.splits)

lemma client_post_eq:
  "client_post d u body s =
     (fst (d (post_request u body) (world s)),
      \<lparr>world = snd (d (post_request u body) (world s)),
       sent = sent s @ [post_request u body]\<rparr>)"
  by (simp add: client_post_def client_send_def split: prod.splits)

lemma robot_entry_eq:
  "robot_entry d robot s =
     (entry_of_outcome robot (fst (d (status_request robot) (world s))),
      \<lparr>world = snd (d (status_request robot) (world s)),
       sent = sent s @ [status_request robot]\<rparr>)"
  by (simp add: robot_entry_def query_robot_def client_get_eq entry_of_outcome_def
      status_request_def Let_def split: prod.splits outcome.splits sum.splits)

lemma list_robots_loop_eq:
  "list_robots_loop d rs acc s =
     (acc @ map2 entry_of_outcome rs (fleet_outcomes d rs (world s)),
      \<lparr>world = fleet_world d rs (world s), sent = sent s @ map status_request rs\<rparr>)"
proof (induction rs arbitrary: acc s)
  case Nil
  show ?case by simp
next
  case (Cons robot rest)
  show ?case
    by (simp add: robot_entry_eq Cons.IH split: prod.splits)
qed

lemma length_fleet_outcomes: "length (fleet_outcomes d rs w) = length rs"
  by (induction rs arbitrary: w) (simp_all split: prod.splits)

lemma entry_ident_entry_of_outcome: "entry_ident (entry_of_outcome robot out) = robot_ident robot"
  by (simp add: entry_ident_def entry_field_def entry_of_outcome_def robot_ident_def dict_get_def
      split: outcome.splits sum.splits)

lemma map_entry_ident_zip:
  "length outs = length rs \<Longrightarrow> map entry_ident (map2 entry_of_outcome rs outs) = map robot_ident rs"
  by (induction rs outs rule: list_induct2') (simp_all add: entry_ident_entry_of_outcome)

lemma loop_idents: "map entry_ident (fst (list_robots_loop d rs [] s)) = map robot_ident rs"
proof -
  have "fst (list_robots_loop d rs [] s) = map2 entry_of_outcome rs (fleet_outcomes d rs (world s))"
    by (simp add: list_robots_loop_eq)
  then show ?thesis
    using map_entry_ident_zip [of "fleet_outcomes d rs (world s)" rs]
    by (simp only: length_fleet_outcomes)
qed

lemma loop_length: "length (fst (list_robots_loop d rs [] s)) = length rs"
  by (simp add: list_robots_loop_eq length_fleet_outcomes)

subsection \<open>Decimal strings\<close>

lemma digit_val_digit_char: "d < 10 \<Longrightarrow> digit_val (digit_char d) = d"
proof -
  assume "d < 10"
  then have "d \<in> {0, 1, 2, 3, 4, 5, 6, 7, 8, 9}" by auto
  then show ?thesis
    by (auto simp: digit_val_def digit_char_def)
qed

lemma digit_char_not_minus: "d < 10 \<Longrightarrow> digit_char d \<noteq> CHR ''-''"
proof -
  assume "d < 10"
  then have "d \<in> {0, 1, 2, 3, 4, 5, 6, 7, 8, 9}" by auto
  then show ?thesis
    by (auto simp: digit_char_def)
qed

lemma nat_of_str_snoc: "nat_of_str (cs @ [c]) = 10 * nat_of_str cs + digit_val c"
  by (simp add: nat_of_str_def)

lemma nat_of_str_str_nat: "nat_of_str (str_nat n) = n"
proof (induction n rule: str_nat.induct)
  case (1 n)
  show ?case
  proof (cases "n < 10")
    case True
    then show ?thesis
      by (subst str_nat.simps) (simp add: nat_of_str_def digit_val_digit_char)
  next
    case False
    with 1 have "nat_of_str (str_nat (n div 10)) = n div 10" by simp
    with False show ?thesis
      by (subst str_nat.simps) (simp add: nat_of_str_snoc digit_val_digit_char)
  qed
qed

lemma str_nat_hd: "\<exists>c cs. str_nat n = c # cs \<and> c \<noteq> CHR ''-''"
proof (induction n rule: str_nat.induct)
  case (1 n)
  show ?case
  proof (cases "n < 10")
    case True
    then show ?thesis
      by (subst str_nat.simps) (simp add: digit_char_not_minus)
  next
    case False
    with 1 obtain c cs where "str_nat (n div 10) = c # cs" "c \<noteq> CHR ''-''" by blast
    with False show ?thesis
      by (subst str_nat.simps) simp
  qed
qed

lemma str_nat_inj: "(str_nat m = str_nat n) = (m = n)"
  by (metis nat_of_str_str_nat)

lemma str_int_inj: "(str_int p = str_int q) = (p = q)"
proof -
  have neg: "str_nat m \<noteq> CHR ''-'' # cs" for m cs
    using str_nat_hd [of m] by auto
  show ?thesis
    using neg neg [symmetric]
    by (auto simp: str_int_def str_nat_inj)
qed

lemma url_inj: "(get_robot_api_url p = get_robot_api_url q) = (p = q)"
  by (simp add: get_robot_api_url_def str_int_inj)


lemma str_int_8000: "str_int 8000 = ''8000''"
  by (simp add: str_int_def str_nat.simps digit_char_def)

lemma str_int_8001: "str_int 8001 = ''8001''"
  by (simp add: str_int_def str_nat.simps digit_char_def)

subsection \<open>The fleet report\<close>

text \<open>
  C1. Whatever the downstream does with each status request (a response of any status,
  or an exception), the report of the listing has one entry per configured robot, in
  the configured order, and each entry carries the port and the name of its robot. This
  holds of the loop for any list of robots and so of \<open>list_available_robots\<close>, which
  runs it on \<open>robots\<close>.
\<close>

theorem fleet_report_one_entry_per_target:
  "length (fst (list_robots_loop d rs [] s)) = length rs \<and>
   map entry_ident (fst (list_robots_loop d rs [] s)) = map robot_ident rs \<and>
   length (fst (list_available_robots d s)) = length robots \<and>
   map entry_ident (fst (list_available_robots d s)) = map robot_ident robots"
  by (simp only: list_available_robots_def loop_idents loop_length simp_thms)


theorem fleet_report_one_entry_per_target_witness:
  "length (fst (list_available_robots only_8000_up idle)) = 2 \<and>
   map entry_ident (fst (list_available_robots only_8000_up idle)) =
     [(Some (PInt 8000), Some (PStr ''Robot 1'')), (Some (PInt 8001), Some (PStr ''Robot 2''))]"
  using fleet_report_one_entry_per_target [of only_8000_up robots idle]
  by (simp add: robots_def robot_ident_def)

lemma list_available_robots_eq:
  "list_available_robots d s =
     (map2 entry_of_outcome robots (fleet_outcomes d robots (world s)),
      \<lparr>world = fleet_world d robots (world s), sent = sent s @ map status_request robots\<rparr>)"
  by (simp add: list_available_robots_def list_robots_loop_eq)

lemma status_request_url: "url (status_request robot) = get_robot_api_url (r_port robot) @ ''/''"
  by (simp add: status_request_def get_request_def)

text \<open>
  C10. The configured fleet is the constant list of two robots, port 8000 named
  "Robot 1" and port 8001 named "Robot 2". Every run of the listing returns two entries,
  the one of port 8000 first, and asks \<^verbatim>\<open>http://localhost:8000/\<close> and then
  \<^verbatim>\<open>http://localhost:8001/\<close>.
\<close>

theorem fleet_is_two_fixed_targets:
  "robots = [\<lparr>r_port = 8000, r_name = ''Robot 1''\<rparr>, \<lparr>r_port = 8001, r_name = ''Robot 2''\<rparr>] \<and>
   length (fst (list_available_robots d s)) = 2 \<and>
   map entry_ident (fst (list_available_robots d s)) =
     [(Some (PInt 8000), Some (PStr ''Robot 1'')), (Some (PInt 8001), Some (PStr ''Robot 2''))] \<and>
   map url (sent (snd (list_available_robots d s))) =
     map url (sent s) @ [''http://localhost:8000/'', ''http://localhost:8001/'']"
proof -
  have a: "length (fst (list_available_robots d s)) = 2"
    by (simp add: list_available_robots_def loop_length) (simp add: robots_def)
  have b: "map entry_ident (fst (list_available_robots d s)) =
     [(Some (PInt 8000), Some (PStr ''Robot 1'')), (Some (PInt 8001), Some (PStr ''Robot 2''))]"
    by (simp only: list_available_robots_def loop_idents) (simp add: robots_def robot_ident_def)
  have c: "map url (sent (snd (list_available_robots d s))) =
     map url (sent s) @ [''http://localhost:8000/'', ''http://localhost:8001/'']"
    by (simp add: list_available_robots_eq robots_def status_request_url get_robot_api_url_def
        str_int_8000 str_int_8001)
  show ?thesis
    using a b c by (simp add: robots_def)
qed

theorem fleet_is_two_fixed_targets_witness:
  "length (fst (list_available_robots (unreachable ''timed out'') idle)) = 2 \<and>
   map url (sent (snd (list_available_robots (unreachable ''timed out'') idle))) =
     [''http://localhost:8000/'', ''http://localhost:8001/'']"
  using fleet_is_two_fixed_targets [of "unreachable ''timed out''" idle]
  by (simp add: idle_def)

text \<open>
  C2, as the code has it. The entry of one robot is decided by what its status request
  did. A response with status exactly 200 whose body parses gives "online" with the
  parsed payload under "info". A response with any other status, 201 and the rest of
  the success range included, gives "error: " followed by the status code. An exception
  of the call, or of parsing the body of a 200 response, gives "offline: " followed by
  the text of the exception.
\<close>

theorem robot_entry_classification:
  "fst (robot_entry d robot s) =
     (case fst (d (status_request robot) (world s)) of
        Raised m \<Rightarrow>
          PDict [(''port'', PInt (r_port robot)), (''name'', PStr (r_name robot)),
                 (''status'', PStr (''offline: '' @ m))]
      | Responded r \<Rightarrow>
          (if status_code r = 200
           then (case json r of
                   Inr info \<Rightarrow>
                     PDict [(''port'', PInt (r_port robot)), (''name'', PStr (r_name robot)),
                            (''status'', PStr ''online''), (''info'', info)]
                 | Inl m \<Rightarrow>
                     PDict [(''port'', PInt (r_port robot)), (''name'', PStr (r_name robot)),
                            (''status'', PStr (''offline: '' @ m))])
           else PDict [(''port'', PInt (r_port robot)), (''name'', PStr (r_name robot)),
                       (''status'', PStr (''error: '' @ str_int (status_code r)))]))"
  by (simp add: robot_entry_eq entry_of_outcome_def)

theorem robot_entry_classification_witness:
  "fst (robot_entry (respond_with status_body) robot1 idle) =
     PDict [(''port'', PInt 8000), (''name'', PStr ''Robot 1''), (''status'', PStr ''online''),
            (''info'', PDict [(''name'', PStr ''Bracket'')])]"
  using robot_entry_classification [of "respond_with status_body" robot1 idle]
  by (simp add: respond_with_def status_body_def robot1_def)

text \<open>
  C2 as stated fails: a robot answering 201, a status of the success range, is listed
  with "error: 201" and without a payload, not as "online".
\<close>

theorem success_range_status_not_online:
  "is_success created_response \<and>
   fst (list_available_robots (respond_with created_response) idle) =
     [PDict [(''port'', PInt 8000), (''name'', PStr ''Robot 1''), (''status'', PStr ''error: 201'')],
      PDict [(''port'', PInt 8001), (''name'', PStr ''Robot 2''), (''status'', PStr ''error: 201'')]]"
  by (simp add: list_available_robots_eq robots_def entry_of_outcome_def respond_with_def
      created_response_def is_success_def str_int_def str_nat.simps digit_char_def)

text \<open>
  C3. The listing always returns a report, for any list of robots and any downstream:
  position by position, the entry built from what the downstream did with that robot's
  status request, one request per robot in order. An exception raised by a request
  becomes the "offline" entry of its robot; the later robots are still asked.
\<close>

theorem fleet_listing_total:
  "list_robots_loop d rs [] s =
     (map2 entry_of_outcome rs (fleet_outcomes d rs (world s)),
      \<lparr>world = fleet_world d rs (world s), sent = sent s @ map status_request rs\<rparr>) \<and>
   length (fleet_outcomes d rs (world s)) = length rs \<and>
   list_available_robots d s =
     (map2 entry_of_outcome robots (fleet_outcomes d robots (world s)),
      \<lparr>world = fleet_world d robots (world s), sent = sent s @ map status_request robots\<rparr>) \<and>
   entry_of_outcome robot (Raised m) =
     PDict [(''port'', PInt (r_port robot)), (''name'', PStr (r_name robot)),
            (''status'', PStr (''offline: '' @ m))]"
  by (simp add: list_robots_loop_eq list_available_robots_eq length_fleet_outcomes
      entry_of_outcome_def)

theorem fleet_listing_total_witness:
  "fst (list_available_robots (unreachable ''timed out'') idle) =
     [PDict [(''port'', PInt 8000), (''name'', PStr ''Robot 1''),
             (''status'', PStr ''offline: timed out'')],
      PDict [(''port'', PInt 8001), (''name'', PStr ''Robot 2''),
             (''status'', PStr ''offline: timed out'')]]"
  using fleet_listing_total [of "unreachable ''timed out''" robots idle]
  by (simp add: robots_def entry_of_outcome_def unreachable_def)

subsection \<open>The relay\<close>

lemma run_relay_eq:
  "run_relay d c s =
     (checked_json (fst (d (relay_request c) (world s))),
      \<lparr>world = snd (d (relay_request c) (world s)), sent = sent s @ [relay_request c]\<rparr>)"
  by (cases c)
    (simp_all add: drive_forward_def drive_backward_def turn_left_def turn_right_def stop_def
      beep_def drive_def robot_status_def client_get_eq client_post_eq Let_def
      split: option.splits)

lemma checked_json_eq:
  "checked_json out =
     (case out of
        Raised m \<Rightarrow> Inl (RequestError m)
      | Responded r \<Rightarrow>
          (if is_success r
           then (case json r of Inl m \<Rightarrow> Inl (JSONDecodeError m) | Inr v \<Rightarrow> Inr v)
           else Inl (HTTPStatusError r)))"
  by (simp add: checked_json_def raise_for_status_def response_json_def split: outcome.splits)

text \<open>
  C4. Each of the eight JSON relays sends exactly one request and then: an exception of
  the call leaves the tool as that exception; a status outside 200..299 leaves it as
  \<open>HTTPStatusError\<close> carrying the response, never as a result; a body that does not
  parse leaves it as the decoding error; only a parsed body of a success response is
  returned. Nothing is caught and nothing is sent twice.
\<close>

theorem relay_errors_propagate:
  "sent (snd (run_relay d c s)) = sent s @ [relay_request c] \<and>
   fst (run_relay d c s) =
     (case fst (d (relay_request c) (world s)) of
        Raised m \<Rightarrow> Inl (RequestError m)
      | Responded r \<Rightarrow>
          (if is_success r
           then (case json r of Inl m \<Rightarrow> Inl (JSONDecodeError m) | Inr v \<Rightarrow> Inr v)
           else Inl (HTTPStatusError r)))"
  by (simp add: run_relay_eq checked_json_eq)

theorem relay_errors_propagate_witness:
  "fst (run_relay (respond_with server_error) (DriveForward 8000 0.2 None) idle) =
     Inl (HTTPStatusError server_error) \<and>
   fst (run_relay (unreachable ''timed out'') (Stop 8000) idle) =
     Inl (RequestError ''timed out'') \<and>
   fst (run_relay (respond_with not_json) (RobotStatus 8000) idle) =
     Inl (JSONDecodeError ''Expecting value: line 1 column 1 (char 0)'') \<and>
   length (sent (snd (run_relay (respond_with server_error) (DriveForward 8000 0.2 None) idle))) = 1"
  using relay_errors_propagate [of "respond_with server_error" "DriveForward 8000 0.2 None" idle]
    relay_errors_propagate [of "unreachable ''timed out''" "Stop 8000" idle]
    relay_errors_propagate [of "respond_with not_json" "RobotStatus 8000" idle]
  by (simp add: respond_with_def unreachable_def server_error_def not_json_def is_success_def
      idle_def)

lemma duration_sent_as_speed_params:
  "duration_sent_as duration (get_request u (Some (speed_params speed duration)) tmo)"
  by (simp add: duration_sent_as_def sent_fields_def get_request_def speed_params_def
      dict_keys_def dict_get_def split: option.splits)

lemma duration_sent_as_drive:
  "duration_sent_as duration (relay_request (Drive port lv av duration))"
  by (simp add: duration_sent_as_def sent_fields_def post_request_def
      dict_keys_def dict_get_def split: option.splits)

text \<open>
  C5. For the four movement tools and \<open>drive\<close>, the request sent has no
  \<^verbatim>\<open>duration\<close> key at all when the caller gives no duration, and has the key with
  the caller's value when one is given.
\<close>

theorem optional_duration_omitted:
  "sent (snd (drive_forward d port speed duration s)) =
     sent s @ [relay_request (DriveForward port speed duration)] \<and>
   duration_sent_as duration (relay_request (DriveForward port speed duration)) \<and>
   sent (snd (drive_backward d port speed duration s)) =
     sent s @ [relay_request (DriveBackward port speed duration)] \<and>
   duration_sent_as duration (relay_request (DriveBackward port speed duration)) \<and>
   sent (snd (turn_left d port speed duration s)) =
     sent s @ [relay_request (TurnLeft port speed duration)] \<and>
   duration_sent_as duration (relay_request (TurnLeft port speed duration)) \<and>
   sent (snd (turn_right d port speed duration s)) =
     sent s @ [relay_request (TurnRight port speed duration)] \<and>
   duration_sent_as duration (relay_request (TurnRight port speed duration)) \<and>
   sent (snd (drive d port lv av duration s)) =
     sent s @ [relay_request (Drive port lv av duration)] \<and>
   duration_sent_as duration (relay_request (Drive port lv av duration))"
proof -
  have "sent (snd (drive_forward d port speed duration s)) =
     sent s @ [relay_request (DriveForward port speed duration)]"
    using run_relay_eq [of d "DriveForward port speed duration" s] by simp
  moreover have "sent (snd (drive_backward d port speed duration s)) =
     sent s @ [relay_request (DriveBackward port speed duration)]"
    using run_relay_eq [of d "DriveBackward port speed duration" s] by simp
  moreover have "sent (snd (turn_left d port speed duration s)) =
     sent s @ [relay_request (TurnLeft port speed duration)]"
    using run_relay_eq [of d "TurnLeft port speed duration" s] by simp
  moreover have "sent (snd (turn_right d port speed duration s)) =
     sent s @ [relay_request (TurnRight port speed duration)]"
    using run_relay_eq [of d "TurnRight port speed duration" s] by simp
  moreover have "sent (snd (drive d port lv av duration s)) =
     sent s @ [relay_request (Drive port lv av duration)]"
    using run_relay_eq [of d "Drive port lv av duration" s] by simp
  ultimately show ?thesis
    using duration_sent_as_drive [of duration port lv av]
    by (simp add: duration_sent_as_speed_params)
qed

theorem optional_duration_omitted_witness:
  "sent (snd (drive_forward (respond_with status_body) 8000 0.2 None idle)) =
     [\<lparr>meth = GET, url = ''http://localhost:8000/forward'',
       params = Some [(''speed'', PFloat 0.2)], json_body = None, timeout = None\<rparr>] \<and>
   sent (snd (drive (respond_with status_body) 8000 0.1 0 (Some 3) idle)) =
     [\<lparr>meth = POST, url = ''http://localhost:8000/drive'', params = None,
       json_body = Some (PDict [(''linear_velocity'', PFloat 0.1),
                                (''angular_velocity'', PFloat 0), (''duration'', PFloat 3)]),
       timeout = None\<rparr>]"
  using optional_duration_omitted [of "respond_with status_body" 8000 "0.2" None idle "0.1" 0]
    optional_duration_omitted [of "respond_with status_body" 8000 "0.2" "Some 3" idle "0.1" 0]
  by (simp add: idle_def get_request_def post_request_def speed_params_def get_robot_api_url_def
      str_int_8000)

lemma in_dict_keys_iff: "(k \<in> set (dict_keys kvs)) = (dict_get kvs k \<noteq> None)"
  by (simp add: dict_get_def dict_keys_def map_of_eq_None_iff)

lemma get_robot_info_eq:
  "get_robot_info d port s =
     (PDict [(''name'', resolved_name port (fst (d (info_request port) (world s)))),
             (''port'', PInt port),
             (''capabilities'', capabilities),
             (''api_endpoints'', api_endpoints)],
      \<lparr>world = snd (d (info_request port) (world s)), sent = sent s @ [info_request port]\<rparr>)"
proof (cases "fst (d (info_request port) (world s))")
  case (Raised m)
  then show ?thesis
    by (simp add: get_robot_info_def lookup_robot_name_def client_get_eq info_request_def
        resolved_name_def fallback_name_def Let_def)
next
  case (Responded r)
  show ?thesis
  proof (cases "status_code r = 200")
    case False
    with Responded show ?thesis
      by (simp add: get_robot_info_def lookup_robot_name_def client_get_eq info_request_def
          resolved_name_def fallback_name_def Let_def)
  next
    case True
    show ?thesis
    proof (cases "json r")
      case (Inl m)
      with True Responded show ?thesis
        by (simp add: get_robot_info_def lookup_robot_name_def client_get_eq info_request_def
            resolved_name_def fallback_name_def response_json_def Let_def)
    next
      case (Inr data)
      have split: "(case (case py_in ''name'' data of
            Inl e \<Rightarrow> (Inl e, s')
          | Inr True \<Rightarrow> (py_getitem data ''name'', s')
          | Inr False \<Rightarrow> (Inr dflt, s')) of
          (res, s'') \<Rightarrow> f res s'') =
          f (case py_in ''name'' data of
               Inl e \<Rightarrow> Inl e
             | Inr True \<Rightarrow> py_getitem data ''name''
             | Inr False \<Rightarrow> Inr dflt) s'" for s' dflt and f :: "exn + pyval \<Rightarrow> 'w net \<Rightarrow> pyval \<times> 'w net"
        by (simp split: sum.splits bool.splits)
      have name: "(case (case py_in ''name'' data of
               Inl e \<Rightarrow> Inl e
             | Inr True \<Rightarrow> py_getitem data ''name''
             | Inr False \<Rightarrow> Inr dflt) of Inl e \<Rightarrow> dflt | Inr n \<Rightarrow> n) =
          (case data of
             PDict kvs \<Rightarrow> (case dict_get kvs ''name'' of None \<Rightarrow> dflt | Some v \<Rightarrow> v)
           | _ \<Rightarrow> dflt)" for dflt
      proof (cases data)
        case (PDict kvs)
        then show ?thesis
          by (cases "dict_get kvs ''name''") (simp_all add: in_dict_keys_iff)
      qed (simp_all split: bool.splits)
      from Inr True Responded show ?thesis
        unfolding resolved_name_def fallback_name_def
        by (simp add: get_robot_info_def lookup_robot_name_def client_get_eq info_request_def
            resolved_name_def fallback_name_def response_json_def Let_def split name
            split: pyval.splits option.splits)
    qed
  qed
qed


lemma status_query_failed_fallback:
  "status_query_failed out \<Longrightarrow> resolved_name port out = fallback_name port"
  by (auto simp: status_query_failed_def resolved_name_def has_name_field_def is_success_def
      split: outcome.splits sum.splits pyval.splits option.splits)

lemma get_camera_image_eq:
  "get_camera_image d port fmt quality s =
     ((case fst (d (image_request port fmt quality) (world s)) of
         Raised m \<Rightarrow> Inl (RequestError m)
       | Responded r \<Rightarrow>
           (if is_success r then Inr \<lparr>img_data = content r, img_format = fmt\<rparr>
            else Inl (HTTPStatusError r))),
      \<lparr>world = snd (d (image_request port fmt quality) (world s)),
       sent = sent s @ [image_request port fmt quality]\<rparr>)"
  by (simp add: get_camera_image_def client_get_eq image_request_def raise_for_status_def Let_def
      split: outcome.splits)

text \<open>
  C6. \<open>drive_forward\<close> with speed 0.5 and duration 2.0 sends one request: a GET to
  \<^verbatim>\<open>/forward\<close> of the robot with the parameters speed 0.5 and duration 2.0. When the
  answer has a success status and a body that parses, the parsed body is the result as
  it is. Every relay call, the image tool included, sends exactly one request.
\<close>

theorem drive_forward_end_to_end:
  "sent (snd (drive_forward d port 0.5 (Some 2.0) s)) =
     sent s @ [\<lparr>meth = GET, url = ''http://localhost:'' @ str_int port @ ''/forward'',
                 params = Some [(''speed'', PFloat 0.5), (''duration'', PFloat 2.0)],
                 json_body = None, timeout = None\<rparr>] \<and>
   (\<forall>r body.
      fst (d \<lparr>meth = GET, url = ''http://localhost:'' @ str_int port @ ''/forward'',
              params = Some [(''speed'', PFloat 0.5), (''duration'', PFloat 2.0)],
              json_body = None, timeout = None\<rparr> (world s)) = Responded r \<and>
      is_success r \<and> json r = Inr body \<longrightarrow>
      fst (drive_forward d port 0.5 (Some 2.0) s) = Inr body) \<and>
   length (sent (snd (run_relay d c s))) = length (sent s) + 1 \<and>
   length (sent (snd (get_camera_image d port fmt quality s))) = length (sent s) + 1"
proof -
  have rq: "relay_request (DriveForward port 0.5 (Some 2.0)) =
      \<lparr>meth = GET, url = ''http://localhost:'' @ str_int port @ ''/forward'',
       params = Some [(''speed'', PFloat 0.5), (''duration'', PFloat 2.0)],
       json_body = None, timeout = None\<rparr>"
    by (simp add: get_request_def speed_params_def get_robot_api_url_def)
  have e: "drive_forward d port 0.5 (Some 2.0) s =
      (checked_json (fst (d (relay_request (DriveForward port 0.5 (Some 2.0))) (world s))),
       \<lparr>world = snd (d (relay_request (DriveForward port 0.5 (Some 2.0))) (world s)),
        sent = sent s @ [relay_request (DriveForward port 0.5 (Some 2.0))]\<rparr>)"
    using run_relay_eq [of d "DriveForward port 0.5 (Some 2.0)" s]
    by (simp only: run_relay.simps)
  show ?thesis
    unfolding e rq
    by (simp add: checked_json_eq run_relay_eq get_camera_image_eq)
qed

theorem drive_forward_end_to_end_witness:
  "sent (snd (drive_forward (respond_with status_body) 8000 0.5 (Some 2.0) idle)) =
     [\<lparr>meth = GET, url = ''http://localhost:8000/forward'',
       params = Some [(''speed'', PFloat 0.5), (''duration'', PFloat 2.0)],
       json_body = None, timeout = None\<rparr>] \<and>
   fst (drive_forward (respond_with status_body) 8000 0.5 (Some 2.0) idle) =
     Inr (PDict [(''name'', PStr ''Bracket'')])"
  using drive_forward_end_to_end [of "respond_with status_body" 8000 idle]
  by (simp add: respond_with_def status_body_def is_success_def idle_def str_int_8000)

text \<open>
  C7. The image tool asked for "jpeg" returns, on a success response, the raw bytes of
  the response tagged "jpeg"; asked for "png", or with the format left out (the default
  is "png"), the raw bytes tagged "png". An exception of the call or a status outside
  200..299 leaves the tool as that error.
\<close>

theorem camera_image_tagged_with_format:
  "fst (call_get_camera_image d port (Some ''jpeg'') quality s) =
     (case fst (d (image_request (arg_or 8000 port) ''jpeg'' (arg_or 90 quality)) (world s)) of
        Raised m \<Rightarrow> Inl (RequestError m)
      | Responded r \<Rightarrow>
          (if is_success r then Inr \<lparr>img_data = content r, img_format = ''jpeg''\<rparr>
           else Inl (HTTPStatusError r))) \<and>
   fst (call_get_camera_image d port (Some ''png'') quality s) =
     (case fst (d (image_request (arg_or 8000 port) ''png'' (arg_or 90 quality)) (world s)) of
        Raised m \<Rightarrow> Inl (RequestError m)
      | Responded r \<Rightarrow>
          (if is_success r then Inr \<lparr>img_data = content r, img_format = ''png''\<rparr>
           else Inl (HTTPStatusError r))) \<and>
   fst (call_get_camera_image d port None quality s) =
     (case fst (d (image_request (arg_or 8000 port) ''png'' (arg_or 90 quality)) (world s)) of
        Raised m \<Rightarrow> Inl (RequestError m)
      | Responded r \<Rightarrow>
          (if is_success r then Inr \<lparr>img_data = content r, img_format = ''png''\<rparr>
           else Inl (HTTPStatusError r)))"
  by (simp add: call_get_camera_image_def get_camera_image_eq arg_or_def)

theorem camera_image_tagged_with_format_witness:
  "fst (call_get_camera_image (respond_with image_response) None (Some ''jpeg'') None idle) =
     Inr \<lparr>img_data = [CHR 0x89] @ ''PNG'', img_format = ''jpeg''\<rparr> \<and>
   fst (call_get_camera_image (respond_with image_response) None None None idle) =
     Inr \<lparr>img_data = [CHR 0x89] @ ''PNG'', img_format = ''png''\<rparr>"
  using camera_image_tagged_with_format [of "respond_with image_response" None None idle]
  by (simp add: respond_with_def image_response_def is_success_def)

text \<open>
  C9. The base URL of port \<open>p\<close> is \<^verbatim>\<open>http://localhost:\<close> followed by the decimal
  \<open>p\<close>, and two ports have the same base URL only when they are equal. Every operation
  sends its request to exactly the base URL of the port it was given followed by its own
  fixed path: \<^verbatim>\<open>/forward\<close>, \<^verbatim>\<open>/backward\<close>, \<^verbatim>\<open>/left\<close>, \<^verbatim>\<open>/right\<close>,
  \<^verbatim>\<open>/stop\<close>, \<^verbatim>\<open>/beep\<close>, \<^verbatim>\<open>/drive\<close>, \<^verbatim>\<open>/\<close> for the eight relays,
  \<^verbatim>\<open>/image\<close> for the image tool, \<^verbatim>\<open>/\<close> for the info resource and for each
  status request of the listing.
\<close>

theorem base_url_is_localhost_port:
  "get_robot_api_url p = ''http://localhost:'' @ str_int p \<and>
   (get_robot_api_url p = get_robot_api_url q) = (p = q) \<and>
   map url (sent (snd (drive_forward d p speed duration s))) =
     map url (sent s) @ [''http://localhost:'' @ str_int p @ ''/forward''] \<and>
   map url (sent (snd (drive_backward d p speed duration s))) =
     map url (sent s) @ [''http://localhost:'' @ str_int p @ ''/backward''] \<and>
   map url (sent (snd (turn_left d p speed duration s))) =
     map url (sent s) @ [''http://localhost:'' @ str_int p @ ''/left''] \<and>
   map url (sent (snd (turn_right d p speed duration s))) =
     map url (sent s) @ [''http://localhost:'' @ str_int p @ ''/right''] \<and>
   map url (sent (snd (stop d p s))) =
     map url (sent s) @ [''http://localhost:'' @ str_int p @ ''/stop''] \<and>
   map url (sent (snd (beep d p frequency beep_duration volume s))) =
     map url (sent s) @ [''http://localhost:'' @ str_int p @ ''/beep''] \<and>
   map url (sent (snd (drive d p lv av duration s))) =
     map url (sent s) @ [''http://localhost:'' @ str_int p @ ''/drive''] \<and>
   map url (sent (snd (robot_status d p s))) =
     map url (sent s) @ [''http://localhost:'' @ str_int p @ ''/''] \<and>
   map url (sent (snd (get_camera_image d p fmt quality s))) =
     map url (sent s) @ [''http://localhost:'' @ str_int p @ ''/image''] \<and>
   map url (sent (snd (get_robot_info d p s))) =
     map url (sent s) @ [''http://localhost:'' @ str_int p @ ''/''] \<and>
   map url (sent (snd (list_robots_loop d rs [] s))) =
     map url (sent s) @ map (\<lambda>robot. ''http://localhost:'' @ str_int (r_port robot) @ ''/'') rs"
proof -
  have fwd: "map url (sent (snd (drive_forward d p speed duration s))) =
      map url (sent s) @ [''http://localhost:'' @ str_int p @ ''/forward'']"
    by (simp add: drive_forward_def client_get_eq get_request_def get_robot_api_url_def Let_def)
  have bwd: "map url (sent (snd (drive_backward d p speed duration s))) =
      map url (sent s) @ [''http://localhost:'' @ str_int p @ ''/backward'']"
    by (simp add: drive_backward_def client_get_eq get_request_def get_robot_api_url_def Let_def)
  have lft: "map url (sent (snd (turn_left d p speed duration s))) =
      map url (sent s) @ [''http://localhost:'' @ str_int p @ ''/left'']"
    by (simp add: turn_left_def client_get_eq get_request_def get_robot_api_url_def Let_def)
  have rgt: "map url (sent (snd (turn_right d p speed duration s))) =
      map url (sent s) @ [''http://localhost:'' @ str_int p @ ''/right'']"
    by (simp add: turn_right_def client_get_eq get_request_def get_robot_api_url_def Let_def)
  have stp: "map url (sent (snd (stop d p s))) =
      map url (sent s) @ [''http://localhost:'' @ str_int p @ ''/stop'']"
    by (simp add: stop_def client_get_eq get_request_def get_robot_api_url_def Let_def)
  have bp: "map url (sent (snd (beep d p frequency beep_duration volume s))) =
      map url (sent s) @ [''http://localhost:'' @ str_int p @ ''/beep'']"
    by (simp add: beep_def client_get_eq get_request_def get_robot_api_url_def Let_def)
  have drv: "map url (sent (snd (drive d p lv av duration s))) =
      map url (sent s) @ [''http://localhost:'' @ str_int p @ ''/drive'']"
    by (simp add: drive_def client_post_eq post_request_def get_robot_api_url_def Let_def)
  have sts: "map url (sent (snd (robot_status d p s))) =
      map url (sent s) @ [''http://localhost:'' @ str_int p @ ''/'']"
    by (simp add: robot_status_def client_get_eq get_request_def get_robot_api_url_def Let_def)
  have img: "map url (sent (snd (get_camera_image d p fmt quality s))) =
      map url (sent s) @ [''http://localhost:'' @ str_int p @ ''/image'']"
    by (simp add: get_camera_image_eq image_request_def get_request_def get_robot_api_url_def)
  have inf: "map url (sent (snd (get_robot_info d p s))) =
      map url (sent s) @ [''http://localhost:'' @ str_int p @ ''/'']"
    by (simp add: get_robot_info_eq info_request_def get_request_def get_robot_api_url_def)
  have lst: "map url (sent (snd (list_robots_loop d rs [] s))) =
      map url (sent s) @ map (\<lambda>robot. ''http://localhost:'' @ str_int (r_port robot) @ ''/'') rs"
    by (simp add: list_robots_loop_eq status_request_def get_request_def get_robot_api_url_def
        comp_def)
  have base: "get_robot_api_url p = ''http://localhost:'' @ str_int p"
    by (simp add: get_robot_api_url_def)
  show ?thesis
    using base url_inj [of p q] fwd bwd lft rgt stp bp drv sts img inf lst
    by (simp only: simp_thms)
qed

theorem base_url_is_localhost_port_witness:
  "get_robot_api_url 8000 = ''http://localhost:8000'' \<and>
   get_robot_api_url 8000 \<noteq> get_robot_api_url 8001 \<and>
   map url (sent (snd (stop only_8000_up 8000 idle))) = [''http://localhost:8000/stop''] \<and>
   map url (sent (snd (drive only_8000_up 8000 0 0 None idle))) =
     [''http://localhost:8000/drive''] \<and>
   map url (sent (snd (get_robot_info only_8000_up 8000 idle))) = [''http://localhost:8000/'']"
  using base_url_is_localhost_port [of 8000 8001 only_8000_up 0 None idle 0 0 0 0 0 "''png''" 90 "[]"]
  by (simp add: get_robot_api_url_def str_int_8000 str_int_8001 idle_def)

text \<open>
  C8. The info resource always returns the name, the port and the two fixed listings,
  after one request. When the status query fails (an exception, a status outside the
  success range, a body that does not parse or has no name field), the name is the
  default "Robot (Port p)" made from the port alone.
\<close>

theorem robot_info_falls_back:
  "(\<exists>n. fst (get_robot_info d port s) =
         PDict [(''name'', n), (''port'', PInt port), (''capabilities'', capabilities),
                (''api_endpoints'', api_endpoints)]) \<and>
   (status_query_failed (fst (d (info_request port) (world s))) \<longrightarrow>
      fst (get_robot_info d port s) =
        PDict [(''name'', PStr (''Robot (Port '' @ str_int port @ '')'')), (''port'', PInt port),
               (''capabilities'', capabilities), (''api_endpoints'', api_endpoints)]) \<and>
   sent (snd (get_robot_info d port s)) = sent s @ [info_request port]"
  using status_query_failed_fallback [of "fst (d (info_request port) (world s))" port]
  by (simp add: get_robot_info_eq fallback_name_def)

theorem robot_info_falls_back_witness:
  "fst (get_robot_info (unreachable ''Connection refused'') 8001 idle) =
     PDict [(''name'', PStr ''Robot (Port 8001)''), (''port'', PInt 8001),
            (''capabilities'', capabilities), (''api_endpoints'', api_endpoints)] \<and>
   fst (get_robot_info (respond_with server_error) 8001 idle) =
     PDict [(''name'', PStr ''Robot (Port 8001)''), (''port'', PInt 8001),
            (''capabilities'', capabilities), (''api_endpoints'', api_endpoints)] \<and>
   fst (get_robot_info (respond_with empty_status) 8001 idle) =
     PDict [(''name'', PStr ''Robot (Port 8001)''), (''port'', PInt 8001),
            (''capabilities'', capabilities), (''api_endpoints'', api_endpoints)]"
  using robot_info_falls_back [of "unreachable ''Connection refused''" 8001 idle]
    robot_info_falls_back [of "respond_with server_error" 8001 idle]
    robot_info_falls_back [of "respond_with empty_status" 8001 idle]
  by (simp add: status_query_failed_def unreachable_def respond_with_def server_error_def
      empty_status_def is_success_def has_name_field_def dict_get_def str_int_8001)

end
